theory Spec2Isabelle
  imports Main
begin

section \<open>The Neolix-edu vehicle factory: the orchestration layer of the CAN bus stack\<close>

text \<open>
  The source file \<^verbatim>\<open>neolix_edu_vehicle_factory.cc\<close> holds the member functions of
  \<^verbatim>\<open>Neolix_eduVehicleFactory\<close>. Every one of them delegates to collaborators that are
  declared elsewhere: the CAN client factory and the client it creates, the message
  manager, the receiver and the sender (two member objects of the factory), the vehicle
  controller and the cyber node with its writers.

  The embedding keeps the factory's own members in a record and threads it through
  every member function. The collaborators are parameters: a record \<open>collab\<close> of state
  transformers over a world \<open>'w\<close>, which holds the state of every collaborator object
  (the two member objects \<^verbatim>\<open>can_receiver_\<close> and \<^verbatim>\<open>can_sender_\<close> included: the
  controller keeps the address of the sender, so their state is shared). A theorem
  about a member function then holds for every behaviour of the collaborators.
\<close>

subsection \<open>Values\<close>

text \<open>
  Modelled from the spec: the result code of the collaborators' \<open>init\<close>, \<open>start\<close> and
  \<open>update\<close> (\<open>OK|error\<close>). The enumeration \<^verbatim>\<open>apollo::common::ErrorCode\<close> is declared
  outside the source file, which compares with \<^verbatim>\<open>ErrorCode::OK\<close> only; every other
  code is \<open>NotOK n\<close>.
\<close>

datatype ErrorCode = OK | NotOK nat

text \<open>
  A smart or raw pointer is \<open>None\<close> (\<^verbatim>\<open>nullptr\<close>) or \<open>Some a\<close>, the address of the object
  in the world.
\<close>

type_synonym ptr = "nat option"

text \<open>
  \<^verbatim>\<open>p->f(...)\<close> on a null pointer is undefined behaviour in C++; the embedding makes it
  an explicit outcome, so that a member function either returns (\<open>Inr\<close>) or faults
  (\<open>Inl\<close>).
\<close>

datatype fault = NullPointerDereference

text \<open>The fields of \<^verbatim>\<open>CanbusConf\<close> that \<^verbatim>\<open>Init\<close> reads; the two parameter messages are opaque.\<close>

record ('cp, 'vp) CanbusConf =
  can_card_parameter :: 'cp
  enable_receiver_log :: bool
  enable_sender_log :: bool
  vehicle_parameter :: 'vp

text \<open>
  Call-order instrumentation: every call that leaves the factory is recorded, in order,
  with the arguments that the claims speak about. \<open>'d\<close> is the chassis detail message
  \<^verbatim>\<open>::apollo::canbus::Neolix_edu\<close>.
\<close>

datatype 'd call =
    C_RegisterCanClients
  | C_CreateCANClient
  | C_new_MessageManager
  | C_receiver_Init
  | C_sender_Init
  | C_new_Controller
  | C_controller_Init
  | C_CreateNode string
  | C_CreateWriter string
  | C_client_Start
  | C_receiver_Start
  | C_sender_Start
  | C_controller_Start
  | C_sender_Stop
  | C_receiver_Stop
  | C_client_Stop
  | C_controller_Stop
  | C_controller_Update_control
  | C_controller_Update_chassis
  | C_sender_Update
  | C_GetNewRecvChassisDetail
  | C_GetNewSenderChassisDetail
  | C_writer_Write nat 'd
  | C_sender_Update_Heartbeat
  | C_CheckChassisCommunicationError
  | C_AddSendMessage
  | C_ClearMessage
  | C_IsMessageClear

datatype severity = ERROR | INFO

subsection \<open>The collaborators\<close>

text \<open>
  One field for each external function that the source file calls. A function called
  through a pointer takes the address of its object first. \<open>new_MessageManager\<close> and
  \<open>new_Controller\<close> are the two \<^verbatim>\<open>new\<close> expressions of \<^verbatim>\<open>CreateMessageManager\<close> and
  \<^verbatim>\<open>CreateVehicleController\<close>; their result is any pointer, null included, so that the
  null checks of \<^verbatim>\<open>Init\<close> are branches of the model. The two topic flags are constants
  defined outside the source file. Two things are left out: the address of the member
  \<^verbatim>\<open>can_sender_\<close> that \<^verbatim>\<open>Init\<close> passes to the controller (it is the same in every call),
  and the result of \<^verbatim>\<open>Write\<close>, which the source discards.
\<close>

record ('w, 'cp, 'vp, 'cmd, 'cc, 'd) collab =
  RegisterCanClients :: "'w \<Rightarrow> 'w"
  CreateCANClient :: "'cp \<Rightarrow> 'w \<Rightarrow> ptr \<times> 'w"
  new_MessageManager :: "'w \<Rightarrow> ptr \<times> 'w"
  receiver_Init :: "ptr \<Rightarrow> ptr \<Rightarrow> bool \<Rightarrow> 'w \<Rightarrow> ErrorCode \<times> 'w"
  sender_Init :: "ptr \<Rightarrow> ptr \<Rightarrow> bool \<Rightarrow> 'w \<Rightarrow> ErrorCode \<times> 'w"
  new_Controller :: "'w \<Rightarrow> ptr \<times> 'w"
  controller_Init :: "nat \<Rightarrow> 'vp \<Rightarrow> ptr \<Rightarrow> 'w \<Rightarrow> ErrorCode \<times> 'w"
  ShortDebugString :: "'vp \<Rightarrow> string"
  CreateNode :: "string \<Rightarrow> 'w \<Rightarrow> ptr \<times> 'w"
  CreateWriter :: "nat \<Rightarrow> string \<Rightarrow> 'w \<Rightarrow> ptr \<times> 'w"
  FLAGS_chassis_detail_topic :: string
  FLAGS_chassis_detail_sender_topic :: string
  client_Start :: "nat \<Rightarrow> 'w \<Rightarrow> ErrorCode \<times> 'w"
  receiver_Start :: "'w \<Rightarrow> ErrorCode \<times> 'w"
  sender_Start :: "'w \<Rightarrow> ErrorCode \<times> 'w"
  controller_Start :: "nat \<Rightarrow> 'w \<Rightarrow> bool \<times> 'w"
  sender_Stop :: "'w \<Rightarrow> 'w"
  receiver_Stop :: "'w \<Rightarrow> 'w"
  client_Stop :: "nat \<Rightarrow> 'w \<Rightarrow> 'w"
  controller_Stop :: "nat \<Rightarrow> 'w \<Rightarrow> 'w"
  controller_Update_control :: "nat \<Rightarrow> 'cmd \<Rightarrow> 'w \<Rightarrow> ErrorCode \<times> 'w"
  controller_Update_chassis :: "nat \<Rightarrow> 'cc \<Rightarrow> 'w \<Rightarrow> ErrorCode \<times> 'w"
  sender_Update :: "'w \<Rightarrow> 'w"
  GetNewRecvChassisDetail :: "nat \<Rightarrow> 'w \<Rightarrow> 'd \<times> 'w"
  GetNewSenderChassisDetail :: "nat \<Rightarrow> 'w \<Rightarrow> 'd \<times> 'w"
  writer_Write :: "nat \<Rightarrow> 'd \<Rightarrow> 'w \<Rightarrow> 'w"
  sender_Update_Heartbeat :: "'w \<Rightarrow> 'w"
  CheckChassisCommunicationError :: "nat \<Rightarrow> 'w \<Rightarrow> bool \<times> 'w"
  AddSendMessage :: "nat \<Rightarrow> 'w \<Rightarrow> 'w"
  ClearMessage :: "'w \<Rightarrow> 'w"
  IsMessageClear :: "'w \<Rightarrow> bool \<times> 'w"

subsection \<open>The factory\<close>

text \<open>
  The members of \<^verbatim>\<open>Neolix_eduVehicleFactory\<close> that the source file assigns: five smart
  pointers and the node, named as in the source without the trailing underscore (a name
  that ends in an underscore is reserved in Isabelle). \<open>world\<close> is the state of the
  collaborators, \<open>calls\<close> the instrumentation and \<open>logs\<close> the lines written by
  \<^verbatim>\<open>AERROR\<close> and \<^verbatim>\<open>AINFO\<close> (\<^verbatim>\<open>ADEBUG\<close> lines are left out).
\<close>

record ('w, 'd) factory =
  can_client :: ptr
  message_manager :: ptr
  vehicle_controller :: ptr
  node :: ptr
  chassis_detail_writer :: ptr
  chassis_detail_sender_writer :: ptr
  world :: 'w
  calls :: "'d call list"
  logs :: "(severity \<times> string) list"

text \<open>A call of a collaborator: run it on the world and record it.\<close>

definition ext :: "'d call \<Rightarrow> ('w \<Rightarrow> 'r \<times> 'w) \<Rightarrow> ('w, 'd) factory \<Rightarrow> 'r \<times> ('w, 'd) factory" where
  "ext k f s = (case f (world s) of (r, w) \<Rightarrow> (r, s\<lparr>world := w, calls := calls s @ [k]\<rparr>))"

definition ext_void :: "'d call \<Rightarrow> ('w \<Rightarrow> 'w) \<Rightarrow> ('w, 'd) factory \<Rightarrow> ('w, 'd) factory" where
  "ext_void k f s = s\<lparr>world := f (world s), calls := calls s @ [k]\<rparr>"

definition AERROR :: "string \<Rightarrow> ('w, 'd) factory \<Rightarrow> ('w, 'd) factory" where
  "AERROR m s = s\<lparr>logs := logs s @ [(ERROR, m)]\<rparr>"

definition AINFO :: "string \<Rightarrow> ('w, 'd) factory \<Rightarrow> ('w, 'd) factory" where
  "AINFO m s = s\<lparr>logs := logs s @ [(INFO, m)]\<rparr>"

text \<open>
  \<^verbatim>\<open>CreateMessageManager\<close> and \<^verbatim>\<open>CreateVehicleController\<close> (lines 201 to 211) wrap one
  \<^verbatim>\<open>new\<close> expression each in a \<^verbatim>\<open>unique_ptr\<close>.
\<close>

definition CreateMessageManager ::
  "('w, 'cp, 'vp, 'cmd, 'cc, 'd) collab \<Rightarrow> ('w, 'd) factory \<Rightarrow> ptr \<times> ('w, 'd) factory" where
  "CreateMessageManager c s = ext C_new_MessageManager (new_MessageManager c) s"

definition CreateVehicleController ::
  "('w, 'cp, 'vp, 'cmd, 'cc, 'd) collab \<Rightarrow> ('w, 'd) factory \<Rightarrow> ptr \<times> ('w, 'd) factory" where
  "CreateVehicleController c s = ext C_new_Controller (new_Controller c) s"

text \<open>
  \<^verbatim>\<open>Init\<close> (lines 32 to 91). Each early \<^verbatim>\<open>return false\<close> is a branch; the controller is
  dereferenced under its null check, the node without one.
\<close>

definition Init ::
  "('w, 'cp, 'vp, 'cmd, 'cc, 'd) collab \<Rightarrow> ('cp, 'vp) CanbusConf \<Rightarrow> ('w, 'd) factory
     \<Rightarrow> fault + (bool \<times> ('w, 'd) factory)" where
  "Init c conf s0 =
    (let s1 = ext_void C_RegisterCanClients (RegisterCanClients c) s0;
         (p1, s2) = ext C_CreateCANClient (CreateCANClient c (can_card_parameter conf)) s1;
         s3 = s2\<lparr>can_client := p1\<rparr>
     in if can_client s3 = None then Inr (False, AERROR ''Failed to create can client.'' s3)
     else
      let s4 = AINFO ''Can client is successfully created.'' s3;
          (p2, s5) = CreateMessageManager c s4;
          s6 = s5\<lparr>message_manager := p2\<rparr>
      in if message_manager s6 = None
         then Inr (False, AERROR ''Failed to create message manager.'' s6)
      else
       let s7 = AINFO ''Message manager is successfully created.'' s6;
           (e3, s8) = ext C_receiver_Init
              (receiver_Init c (can_client s7) (message_manager s7) (enable_receiver_log conf)) s7
       in if e3 \<noteq> OK then Inr (False, AERROR ''Failed to init can receiver.'' s8)
       else
        let s9 = AINFO ''The can receiver is successfully initialized.'' s8;
            (e4, s10) = ext C_sender_Init
               (sender_Init c (can_client s9) (message_manager s9) (enable_sender_log conf)) s9
        in if e4 \<noteq> OK then Inr (False, AERROR ''Failed to init can sender.'' s10)
        else
         let s11 = AINFO ''The can sender is successfully initialized.'' s10;
             (p5, s12) = CreateVehicleController c s11;
             s13 = s12\<lparr>vehicle_controller := p5\<rparr>
         in (case vehicle_controller s13 of
               None \<Rightarrow> Inr (False, AERROR ''Failed to create vehicle controller.'' s13)
             | Some vc \<Rightarrow>
          let s14 = AINFO ''The vehicle controller is successfully created.'' s13;
              (e6, s15) = ext C_controller_Init
                 (controller_Init c vc (vehicle_parameter conf) (message_manager s14)) s14
          in if e6 \<noteq> OK then Inr (False, AERROR ''Failed to init vehicle controller.'' s15)
          else
           let s16 = AINFO (''The vehicle controller is successfully''
                        @ '' initialized with canbus conf as : ''
                        @ ShortDebugString c (vehicle_parameter conf)) s15;
               (p7, s17) = ext (C_CreateNode ''chassis_detail'') (CreateNode c ''chassis_detail'') s16;
               s18 = s17\<lparr>node := p7\<rparr>
           in (case node s18 of
                 None \<Rightarrow> Inl NullPointerDereference
               | Some n \<Rightarrow>
            let (p8, s19) = ext (C_CreateWriter (FLAGS_chassis_detail_topic c))
                   (CreateWriter c n (FLAGS_chassis_detail_topic c)) s18;
                s20 = s19\<lparr>chassis_detail_writer := p8\<rparr>;
                (p9, s21) = ext (C_CreateWriter (FLAGS_chassis_detail_sender_topic c))
                   (CreateWriter c n (FLAGS_chassis_detail_sender_topic c)) s20;
                s22 = s21\<lparr>chassis_detail_sender_writer := p9\<rparr>
            in Inr (True, s22))))"

text \<open>
  \<^verbatim>\<open>Start\<close> (lines 93 to 121). The client and the controller are dereferenced without a
  null check.
\<close>

definition Start ::
  "('w, 'cp, 'vp, 'cmd, 'cc, 'd) collab \<Rightarrow> ('w, 'd) factory \<Rightarrow> fault + (bool \<times> ('w, 'd) factory)" where
  "Start c s0 =
    (case can_client s0 of
       None \<Rightarrow> Inl NullPointerDereference
     | Some cl \<Rightarrow>
      let (e1, s1) = ext C_client_Start (client_Start c cl) s0
      in if e1 \<noteq> OK then Inr (False, AERROR ''Failed to start can client'' s1)
      else
       let s2 = AINFO ''Can client is started.'' s1;
           (e2, s3) = ext C_receiver_Start (receiver_Start c) s2
       in if e2 \<noteq> OK then Inr (False, AERROR ''Failed to start can receiver.'' s3)
       else
        let s4 = AINFO ''Can receiver is started.'' s3;
            (e3, s5) = ext C_sender_Start (sender_Start c) s4
        in if e3 \<noteq> OK then Inr (False, AERROR ''Failed to start can sender.'' s5)
        else
         (case vehicle_controller s5 of
            None \<Rightarrow> Inl NullPointerDereference
          | Some vc \<Rightarrow>
           let (b4, s6) = ext C_controller_Start (controller_Start c vc) s5
           in if \<not> b4 then Inr (False, AERROR ''Failed to start vehicle controller.'' s6)
              else Inr (True, s6)))"

text \<open>\<^verbatim>\<open>Stop\<close> (lines 123 to 129): four calls, none of which returns a value.\<close>

definition Stop ::
  "('w, 'cp, 'vp, 'cmd, 'cc, 'd) collab \<Rightarrow> ('w, 'd) factory \<Rightarrow> fault + ('w, 'd) factory" where
  "Stop c s0 =
    (let s1 = ext_void C_sender_Stop (sender_Stop c) s0;
         s2 = ext_void C_receiver_Stop (receiver_Stop c) s1
     in (case can_client s2 of
          None \<Rightarrow> Inl NullPointerDereference
        | Some cl \<Rightarrow>
         let s3 = ext_void C_client_Stop (client_Stop c cl) s2
         in (case vehicle_controller s3 of
              None \<Rightarrow> Inl NullPointerDereference
            | Some vc \<Rightarrow>
             let s4 = ext_void C_controller_Stop (controller_Stop c vc) s3
             in Inr (AINFO ''Cleanup cansender, canreceiver, canclient, vehicle controller.'' s4))))"

text \<open>
  The two overloads of \<^verbatim>\<open>UpdateCommand\<close> (lines 131 to 149). The command arrives as a
  pointer that the function dereferences.
\<close>

definition UpdateCommand_control ::
  "('w, 'cp, 'vp, 'cmd, 'cc, 'd) collab \<Rightarrow> 'cmd option \<Rightarrow> ('w, 'd) factory \<Rightarrow> fault + ('w, 'd) factory" where
  "UpdateCommand_control c control_command s0 =
    (case vehicle_controller s0 of
       None \<Rightarrow> Inl NullPointerDereference
     | Some vc \<Rightarrow>
      (case control_command of
         None \<Rightarrow> Inl NullPointerDereference
       | Some cmd \<Rightarrow>
        let (e, s1) = ext C_controller_Update_control (controller_Update_control c vc cmd) s0
        in if e \<noteq> OK
           then Inr (AERROR (''Failed to process callback function OnControlCommand because ''
                             @ ''vehicle_controller_->Update error.'') s1)
           else Inr (ext_void C_sender_Update (sender_Update c) s1)))"

definition UpdateCommand_chassis ::
  "('w, 'cp, 'vp, 'cmd, 'cc, 'd) collab \<Rightarrow> 'cc option \<Rightarrow> ('w, 'd) factory \<Rightarrow> fault + ('w, 'd) factory" where
  "UpdateCommand_chassis c chassis_command s0 =
    (case vehicle_controller s0 of
       None \<Rightarrow> Inl NullPointerDereference
     | Some vc \<Rightarrow>
      (case chassis_command of
         None \<Rightarrow> Inl NullPointerDereference
       | Some cmd \<Rightarrow>
        let (e, s1) = ext C_controller_Update_chassis (controller_Update_chassis c vc cmd) s0
        in if e \<noteq> OK
           then Inr (AERROR (''Failed to process callback function OnControlCommand because ''
                             @ ''vehicle_controller_->Update error.'') s1)
           else Inr (ext_void C_sender_Update (sender_Update c) s1)))"



text \<open>\<^verbatim>\<open>UpdateHeartbeat\<close> (lines 171 to 173).\<close>

definition UpdateHeartbeat ::
  "('w, 'cp, 'vp, 'cmd, 'cc, 'd) collab \<Rightarrow> ('w, 'd) factory \<Rightarrow> ('w, 'd) factory" where
  "UpdateHeartbeat c s0 = ext_void C_sender_Update_Heartbeat (sender_Update_Heartbeat c) s0"

text \<open>\<^verbatim>\<open>CheckChassisCommunicationFault\<close> (lines 175 to 180).\<close>

definition CheckChassisCommunicationFault ::
  "('w, 'cp, 'vp, 'cmd, 'cc, 'd) collab \<Rightarrow> ('w, 'd) factory \<Rightarrow> fault + (bool \<times> ('w, 'd) factory)" where
  "CheckChassisCommunicationFault c s0 =
    (case vehicle_controller s0 of
       None \<Rightarrow> Inl NullPointerDereference
     | Some vc \<Rightarrow>
      let (b, s1) = ext C_CheckChassisCommunicationError (CheckChassisCommunicationError c vc) s0
      in if b then Inr (True, s1) else Inr (False, s1))"




text \<open>
  \<^verbatim>\<open>publish_chassis\<close> and \<^verbatim>\<open>Driving_Mode\<close> return what the controller returns; no
  statement below is about them, and they are not embedded.
\<close>

subsection \<open>Collaborators modelled from the spec\<close>

text \<open>
  The receiver, the sender, the controller and the messaging fabric are not part of the
  source file. Where a statement is about what they do, and not only about how the
  factory calls them, they are modelled from the spec's description of their contracts.
\<close>

text \<open>
  Modelled from the spec: the state of the missing collaborators. \<open>send_messages\<close> is the
  Send Loop's registered message set, \<open>controller_messages\<close> the outgoing message
  templates that the controller intends to transmit, \<open>recv_detail\<close> and \<open>sender_detail\<close>
  the most recently decoded telemetry snapshot and the most recently staged outgoing
  snapshot, \<open>frames_lost\<close> whether the controller has detected the loss of expected
  periodic frames. The messaging fabric registers channels by topic name: \<open>registered\<close>
  lists the topics of the writers it has handed out (a writer is its index) and
  \<open>channel\<close> gives what has been written to each topic. \<open>started\<close> lists the stages
  that a test double has started.
\<close>

record 'd sm_world =
  send_messages :: "nat list"
  controller_messages :: "nat list"
  recv_detail :: 'd
  sender_detail :: 'd
  frames_lost :: bool
  registered :: "string list"
  channel :: "string \<Rightarrow> 'd list"
  started :: "string list"

text \<open>Modelled from the spec: \<open>clearMessages()\<close> of the Send Loop (the missing
  \<^verbatim>\<open>CanSender::ClearMessage\<close>) empties the registered message set entirely.\<close>

definition sm_ClearMessage :: "'d sm_world \<Rightarrow> 'd sm_world" where
  "sm_ClearMessage w = w\<lparr>send_messages := []\<rparr>"

text \<open>Modelled from the spec: \<open>isMessageQueueClear()\<close> of the Send Loop (the missing
  \<^verbatim>\<open>CanSender::IsMessageClear\<close>) is true iff the Send Loop has no registered outgoing
  message.\<close>

definition sm_IsMessageClear :: "'d sm_world \<Rightarrow> bool \<times> 'd sm_world" where
  "sm_IsMessageClear w = (send_messages w = [], w)"

text \<open>Modelled from the spec: \<open>addSendMessages()\<close> of the controller (the missing
  \<^verbatim>\<open>Neolix_eduController::AddSendMessage\<close>) registers with the Send Loop the set of
  outgoing message templates that the controller intends to transmit.\<close>

definition sm_AddSendMessage :: "nat \<Rightarrow> 'd sm_world \<Rightarrow> 'd sm_world" where
  "sm_AddSendMessage vc w = w\<lparr>send_messages := send_messages w @ controller_messages w\<rparr>"

text \<open>Modelled from the spec: \<open>checkCommunicationError()\<close> of the controller (the missing
  \<^verbatim>\<open>Neolix_eduController::CheckChassisCommunicationError\<close>) reports the loss of expected
  periodic frames and is purely observational.\<close>

definition sm_CheckChassisCommunicationError :: "nat \<Rightarrow> 'd sm_world \<Rightarrow> bool \<times> 'd sm_world" where
  "sm_CheckChassisCommunicationError vc w = (frames_lost w, w)"

text \<open>Modelled from the spec: \<open>getLatestReceivedSnapshot()\<close> and
  \<open>getLatestStagedSnapshot()\<close> of the controller (the missing
  \<^verbatim>\<open>GetNewRecvChassisDetail\<close> and \<^verbatim>\<open>GetNewSenderChassisDetail\<close>) return copies of the
  latest received and of the latest staged snapshot.\<close>

definition sm_GetNewRecvChassisDetail :: "nat \<Rightarrow> 'd sm_world \<Rightarrow> 'd \<times> 'd sm_world" where
  "sm_GetNewRecvChassisDetail vc w = (recv_detail w, w)"

definition sm_GetNewSenderChassisDetail :: "nat \<Rightarrow> 'd sm_world \<Rightarrow> 'd \<times> 'd sm_world" where
  "sm_GetNewSenderChassisDetail vc w = (sender_detail w, w)"

text \<open>Modelled from the spec: channel registration by topic name (the missing
  \<^verbatim>\<open>Node::CreateWriter\<close>) hands out a new writer for the topic, and \<open>write(snapshot)\<close>
  (the missing \<^verbatim>\<open>Writer::Write\<close>) appends the snapshot to the channel of the writer's
  topic. A writer that the fabric never handed out writes nowhere.\<close>

definition sm_CreateWriter :: "nat \<Rightarrow> string \<Rightarrow> 'd sm_world \<Rightarrow> ptr \<times> 'd sm_world" where
  "sm_CreateWriter n topic w = (Some (length (registered w)), w\<lparr>registered := registered w @ [topic]\<rparr>)"

definition sm_writer_Write :: "nat \<Rightarrow> 'd \<Rightarrow> 'd sm_world \<Rightarrow> 'd sm_world" where
  "sm_writer_Write wr d w =
    (if wr < length (registered w)
     then w\<lparr>channel := (channel w)(registered w ! wr := channel w (registered w ! wr) @ [d])\<rparr>
     else w)"

text \<open>Any collaborators, with the operations above in place of theirs.\<close>

definition spec_collab ::
  "('d sm_world, 'cp, 'vp, 'cmd, 'cc, 'd) collab \<Rightarrow> ('d sm_world, 'cp, 'vp, 'cmd, 'cc, 'd) collab" where
  "spec_collab c = c\<lparr>
     CreateWriter := sm_CreateWriter,
     GetNewRecvChassisDetail := sm_GetNewRecvChassisDetail,
     GetNewSenderChassisDetail := sm_GetNewSenderChassisDetail,
     writer_Write := sm_writer_Write,
     CheckChassisCommunicationError := sm_CheckChassisCommunicationError,
     AddSendMessage := sm_AddSendMessage,
     ClearMessage := sm_ClearMessage,
     IsMessageClear := sm_IsMessageClear\<rparr>"

subsection \<open>Test doubles\<close>

text \<open>
  A stub of the collaborators for concrete runs. \<open>bad\<close> lists the calls that are made
  to fail: 1 the client factory, 2 the message manager, 3 the receiver's init, 4 the
  sender's init, 5 the controller's construction, 6 its init, 7 the node, 11 to 14 the
  four starts, 21 and 22 the controller's two updates. A start that succeeds adds its
  stage to \<open>started\<close>, a stop removes it.
\<close>

definition stub :: "nat list \<Rightarrow> (nat sm_world, nat, nat, nat, nat, nat) collab" where
  "stub bad = \<lparr>
     RegisterCanClients = (\<lambda>w. w),
     CreateCANClient = (\<lambda>cp w. (if 1 \<in> set bad then None else Some 1, w)),
     new_MessageManager = (\<lambda>w. (if 2 \<in> set bad then None else Some 2, w)),
     receiver_Init = (\<lambda>cl mm lg w. (if 3 \<in> set bad then NotOK 2000 else OK, w)),
     sender_Init = (\<lambda>cl mm lg w. (if 4 \<in> set bad then NotOK 2000 else OK, w)),
     new_Controller = (\<lambda>w. (if 5 \<in> set bad then None else Some 3, w)),
     controller_Init = (\<lambda>vc vp mm w. (if 6 \<in> set bad then NotOK 2000 else OK, w)),
     ShortDebugString = (\<lambda>vp. ''vehicle_parameter''),
     CreateNode = (\<lambda>name w. (if 7 \<in> set bad then None else Some 4, w)),
     CreateWriter = sm_CreateWriter,
     FLAGS_chassis_detail_topic = ''chassis_detail'',
     FLAGS_chassis_detail_sender_topic = ''chassis_detail_sender'',
     client_Start = (\<lambda>cl w. if 11 \<in> set bad then (NotOK 2100, w)
                            else (OK, w\<lparr>started := started w @ [''client'']\<rparr>)),
     receiver_Start = (\<lambda>w. if 12 \<in> set bad then (NotOK 2000, w)
                           else (OK, w\<lparr>started := started w @ [''receiver'']\<rparr>)),
     sender_Start = (\<lambda>w. if 13 \<in> set bad then (NotOK 2000, w)
                         else (OK, w\<lparr>started := started w @ [''sender'']\<rparr>)),
     controller_Start = (\<lambda>vc w. if 14 \<in> set bad then (False, w)
                                else (True, w\<lparr>started := started w @ [''controller'']\<rparr>)),
     sender_Stop = (\<lambda>w. w\<lparr>started := removeAll ''sender'' (started w)\<rparr>),
     receiver_Stop = (\<lambda>w. w\<lparr>started := removeAll ''receiver'' (started w)\<rparr>),
     client_Stop = (\<lambda>cl w. w\<lparr>started := removeAll ''client'' (started w)\<rparr>),
     controller_Stop = (\<lambda>vc w. w\<lparr>started := removeAll ''controller'' (started w)\<rparr>),
     controller_Update_control = (\<lambda>vc cmd w. if 21 \<in> set bad then (NotOK 2000, w)
                                               else (OK, w\<lparr>sender_detail := cmd\<rparr>)),
     controller_Update_chassis = (\<lambda>vc cmd w. if 22 \<in> set bad then (NotOK 2000, w)
                                               else (OK, w\<lparr>sender_detail := cmd\<rparr>)),
     sender_Update = (\<lambda>w. w),
     GetNewRecvChassisDetail = sm_GetNewRecvChassisDetail,
     GetNewSenderChassisDetail = sm_GetNewSenderChassisDetail,
     writer_Write = sm_writer_Write,
     sender_Update_Heartbeat = (\<lambda>w. w),
     CheckChassisCommunicationError = sm_CheckChassisCommunicationError,
     AddSendMessage = sm_AddSendMessage,
     ClearMessage = sm_ClearMessage,
     IsMessageClear = sm_IsMessageClear\<rparr>"

definition world0 :: "nat sm_world" where
  "world0 = \<lparr>send_messages = [], controller_messages = [70, 80, 86],
              recv_detail = 0, sender_detail = 0, frames_lost = False,
              registered = [], channel = (\<lambda>t. []), started = []\<rparr>"

text \<open>A factory as its constructor leaves it: every smart pointer is null.\<close>

definition factory0 :: "'w \<Rightarrow> ('w, 'd) factory" where
  "factory0 w = \<lparr>can_client = None, message_manager = None, vehicle_controller = None,
                  node = None, chassis_detail_writer = None, chassis_detail_sender_writer = None,
                  world = w, calls = [], logs = []\<rparr>"

definition conf0 :: "(nat, nat) CanbusConf" where
  "conf0 = \<lparr>can_card_parameter = 0, enable_receiver_log = False, enable_sender_log = False,
             vehicle_parameter = 0\<rparr>"

subsection \<open>Outcomes of a call\<close>

text \<open>
  \<open>returned r b s w ks\<close>: the call that started in \<open>s\<close> returned \<open>b\<close>, made exactly the
  external calls \<open>ks\<close>, in this order, and left the collaborators in \<open>w\<close>.
  \<open>finished\<close> is the same for a function that returns nothing.
\<close>

definition returned ::
  "fault + (bool \<times> ('w, 'd) factory) \<Rightarrow> bool \<Rightarrow> ('w, 'd) factory \<Rightarrow> 'w \<Rightarrow> 'd call list \<Rightarrow> bool" where
  "returned r b s w ks =
    (case r of Inl f \<Rightarrow> False
     | Inr (b', s') \<Rightarrow> b' = b \<and> world s' = w \<and> calls s' = calls s @ ks)"

definition finished ::
  "fault + ('w, 'd) factory \<Rightarrow> ('w, 'd) factory \<Rightarrow> 'w \<Rightarrow> 'd call list \<Rightarrow> bool" where
  "finished r s w ks =
    (case r of Inl f \<Rightarrow> False
     | Inr s' \<Rightarrow> world s' = w \<and> calls s' = calls s @ ks)"

text \<open>
  \<open>returns_false r\<close>: the call returned, and what it returned is \<^verbatim>\<open>false\<close>.
  \<open>kept r cl mm vc\<close>: the call returned and the factory then holds these three pointers.
\<close>

definition returns_false :: "fault + (bool \<times> ('w, 'd) factory) \<Rightarrow> bool" where
  "returns_false r = (case r of Inl f \<Rightarrow> False | Inr (b, s') \<Rightarrow> \<not> b)"

definition kept ::
  "fault + (bool \<times> ('w, 'd) factory) \<Rightarrow> ptr \<Rightarrow> ptr \<Rightarrow> ptr \<Rightarrow> bool" where
  "kept r cl mm vc =
    (case r of Inl f \<Rightarrow> False
     | Inr (b, s') \<Rightarrow> can_client s' = cl \<and> message_manager s' = mm \<and> vehicle_controller s' = vc)"

text \<open>
  \<^verbatim>\<open>Init\<close> would fail atomically if a call that returns \<^verbatim>\<open>false\<close> left the three
  pointers that it assigns as they were before the call.
\<close>

definition Init_atomic ::
  "('w, 'cp, 'vp, 'cmd, 'cc, 'd) collab \<Rightarrow> ('cp, 'vp) CanbusConf \<Rightarrow> ('w, 'd) factory \<Rightarrow> bool" where
  "Init_atomic c conf s =
    (case Init c conf s of
       Inl f \<Rightarrow> True
     | Inr (b, s') \<Rightarrow> b \<or> (can_client s' = can_client s \<and> message_manager s' = message_manager s
                          \<and> vehicle_controller s' = vehicle_controller s))"

text \<open>
  The factory as \<^verbatim>\<open>Init\<close> leaves it on the stub when no step fails, with the
  instrumentation and the log emptied.
\<close>

definition wired0 :: "(nat sm_world, nat) factory" where
  "wired0 = \<lparr>can_client = Some 1, message_manager = Some 2, vehicle_controller = Some 3,
              node = Some 4, chassis_detail_writer = Some 0, chassis_detail_sender_writer = Some 1,
              world = world0\<lparr>registered := [''chassis_detail'', ''chassis_detail_sender'']\<rparr>,
              calls = [], logs = []\<rparr>"


section \<open>Properties\<close>

subsection \<open>Unfolding rules\<close>

text \<open>
  The definitions that a proof about one member function unfolds, those of the
  collaborators modelled from the spec, and those of the test doubles.
\<close>

lemmas Init_simps = Init_def Let_def ext_def ext_void_def AERROR_def AINFO_def
  CreateMessageManager_def CreateVehicleController_def returned_def

lemmas Start_simps = Start_def Let_def ext_def ext_void_def AERROR_def AINFO_def returned_def

lemmas Stop_simps = Stop_def Let_def ext_def ext_void_def AERROR_def AINFO_def

lemmas Update_simps = UpdateCommand_control_def UpdateCommand_chassis_def Let_def ext_def
  ext_void_def AERROR_def AINFO_def finished_def



lemmas spec_simps = spec_collab_def sm_ClearMessage_def sm_IsMessageClear_def
  sm_AddSendMessage_def sm_CheckChassisCommunicationError_def sm_GetNewRecvChassisDetail_def
  sm_GetNewSenderChassisDetail_def sm_CreateWriter_def sm_writer_Write_def

lemmas stub_simps = stub_def conf0_def factory0_def world0_def wired0_def

subsection \<open>Init\<close>

text \<open>
  C1. Name the results of the fallible steps of \<^verbatim>\<open>Init\<close> in the order of the source: the
  client factory gives \<open>pc\<close>, the message manager's constructor \<open>pm\<close>, the receiver's
  init \<open>er\<close>, the sender's init \<open>es\<close>, the controller's constructor \<open>pv\<close> and the
  controller's init \<open>ev\<close>, each in the world that the steps before it left. Whichever
  of the six is the first to fail (a null pointer, a code other than \<open>OK\<close>), \<^verbatim>\<open>Init\<close>
  returns \<^verbatim>\<open>false\<close>, the calls it has made are exactly those up to the failing step, in
  order, and the collaborators are as the failing step left them: no later step runs.
\<close>

theorem Init_failure_short_circuits:
  assumes "CreateCANClient c (can_card_parameter conf) (RegisterCanClients c (world s)) = (pc, w_cl)"
    and "new_MessageManager c w_cl = (pm, w_mm)"
    and "receiver_Init c pc pm (enable_receiver_log conf) w_mm = (er, w_rx)"
    and "sender_Init c pc pm (enable_sender_log conf) w_rx = (es, w_tx)"
    and "new_Controller c w_tx = (pv, w_nc)"
  shows
    "(pc = None \<longrightarrow>
        returned (Init c conf s) False s w_cl [C_RegisterCanClients, C_CreateCANClient])
   \<and> (pc \<noteq> None \<and> pm = None \<longrightarrow>
        returned (Init c conf s) False s w_mm
          [C_RegisterCanClients, C_CreateCANClient, C_new_MessageManager])
   \<and> (pc \<noteq> None \<and> pm \<noteq> None \<and> er \<noteq> OK \<longrightarrow>
        returned (Init c conf s) False s w_rx
          [C_RegisterCanClients, C_CreateCANClient, C_new_MessageManager, C_receiver_Init])
   \<and> (pc \<noteq> None \<and> pm \<noteq> None \<and> er = OK \<and> es \<noteq> OK \<longrightarrow>
        returned (Init c conf s) False s w_tx
          [C_RegisterCanClients, C_CreateCANClient, C_new_MessageManager, C_receiver_Init,
           C_sender_Init])
   \<and> (pc \<noteq> None \<and> pm \<noteq> None \<and> er = OK \<and> es = OK \<and> pv = None \<longrightarrow>
        returned (Init c conf s) False s w_nc
          [C_RegisterCanClients, C_CreateCANClient, C_new_MessageManager, C_receiver_Init,
           C_sender_Init, C_new_Controller])
   \<and> (pc \<noteq> None \<and> pm \<noteq> None \<and> er = OK \<and> es = OK \<and> pv = Some vc
        \<and> controller_Init c vc (vehicle_parameter conf) pm w_nc = (ev, w_vc) \<and> ev \<noteq> OK \<longrightarrow>
        returned (Init c conf s) False s w_vc
          [C_RegisterCanClients, C_CreateCANClient, C_new_MessageManager, C_receiver_Init,
           C_sender_Init, C_new_Controller, C_controller_Init])"
  using assms by (auto simp add: Init_simps)

text \<open>The six cases on the stub, each with one step made to fail.\<close>

theorem Init_failure_short_circuits_witness:
  "returned (Init (stub [1]) conf0 (factory0 world0)) False (factory0 world0) world0
     [C_RegisterCanClients, C_CreateCANClient]
   \<and> returned (Init (stub [2]) conf0 (factory0 world0)) False (factory0 world0) world0
     [C_RegisterCanClients, C_CreateCANClient, C_new_MessageManager]
   \<and> returned (Init (stub [3]) conf0 (factory0 world0)) False (factory0 world0) world0
     [C_RegisterCanClients, C_CreateCANClient, C_new_MessageManager, C_receiver_Init]
   \<and> returned (Init (stub [4]) conf0 (factory0 world0)) False (factory0 world0) world0
     [C_RegisterCanClients, C_CreateCANClient, C_new_MessageManager, C_receiver_Init,
      C_sender_Init]
   \<and> returned (Init (stub [5]) conf0 (factory0 world0)) False (factory0 world0) world0
     [C_RegisterCanClients, C_CreateCANClient, C_new_MessageManager, C_receiver_Init,
      C_sender_Init, C_new_Controller]
   \<and> returned (Init (stub [6]) conf0 (factory0 world0)) False (factory0 world0) world0
     [C_RegisterCanClients, C_CreateCANClient, C_new_MessageManager, C_receiver_Init,
      C_sender_Init, C_new_Controller, C_controller_Init]"
proof -
  note th = Init_failure_short_circuits [where conf = conf0 and s = "factory0 world0"
      and w_cl = world0 and w_mm = world0 and w_rx = world0 and w_tx = world0 and w_nc = world0
      and w_vc = world0 and vc = 3 and ev = "NotOK 2000"]
  have f1: "returned (Init (stub [1]) conf0 (factory0 world0)) False (factory0 world0) world0
     [C_RegisterCanClients, C_CreateCANClient]"
    using th [where c = "stub [1]" and pc = None and pm = "Some 2" and er = OK
        and es = OK and pv = "Some 3"]
    by (simp add: stub_simps)
  have f2: "returned (Init (stub [2]) conf0 (factory0 world0)) False (factory0 world0) world0
     [C_RegisterCanClients, C_CreateCANClient, C_new_MessageManager]"
    using th [where c = "stub [2]" and pc = "Some 1" and pm = None and er = OK
        and es = OK and pv = "Some 3"]
    by (simp add: stub_simps)
  have f3: "returned (Init (stub [3]) conf0 (factory0 world0)) False (factory0 world0) world0
     [C_RegisterCanClients, C_CreateCANClient, C_new_MessageManager, C_receiver_Init]"
    using th [where c = "stub [3]" and pc = "Some 1" and pm = "Some 2" and er = "NotOK 2000"
        and es = OK and pv = "Some 3"]
    by (simp add: stub_simps)
  have f4: "returned (Init (stub [4]) conf0 (factory0 world0)) False (factory0 world0) world0
     [C_RegisterCanClients, C_CreateCANClient, C_new_MessageManager, C_receiver_Init,
      C_sender_Init]"
    using th [where c = "stub [4]" and pc = "Some 1" and pm = "Some 2" and er = OK
        and es = "NotOK 2000" and pv = "Some 3"]
    by (simp add: stub_simps)
  have f5: "returned (Init (stub [5]) conf0 (factory0 world0)) False (factory0 world0) world0
     [C_RegisterCanClients, C_CreateCANClient, C_new_MessageManager, C_receiver_Init,
      C_sender_Init, C_new_Controller]"
    using th [where c = "stub [5]" and pc = "Some 1" and pm = "Some 2" and er = OK
        and es = OK and pv = None]
    by (simp add: stub_simps)
  have f6: "returned (Init (stub [6]) conf0 (factory0 world0)) False (factory0 world0) world0
     [C_RegisterCanClients, C_CreateCANClient, C_new_MessageManager, C_receiver_Init,
      C_sender_Init, C_new_Controller, C_controller_Init]"
    using th [where c = "stub [6]" and pc = "Some 1" and pm = "Some 2" and er = OK
        and es = OK and pv = "Some 3"]
    by (simp add: stub_simps)
  from f1 f2 f3 f4 f5 f6 show ?thesis by blast
qed

text \<open>
  C10, as the code has it. Once the six fallible steps have succeeded, \<^verbatim>\<open>Init\<close> cannot
  return \<^verbatim>\<open>false\<close>: the last step, which creates the node and the two writers, has no
  failure branch. When \<^verbatim>\<open>CreateNode\<close> hands back a node, \<^verbatim>\<open>Init\<close> returns \<^verbatim>\<open>true\<close> after
  creating the node and one writer for each of the two topics, whatever the two writers
  are.
\<close>

theorem Init_succeeds_after_six_steps:
  assumes "CreateCANClient c (can_card_parameter conf) (RegisterCanClients c (world s)) = (Some cl, w_cl)"
    and "new_MessageManager c w_cl = (Some mm, w_mm)"
    and "receiver_Init c (Some cl) (Some mm) (enable_receiver_log conf) w_mm = (OK, w_rx)"
    and "sender_Init c (Some cl) (Some mm) (enable_sender_log conf) w_rx = (OK, w_tx)"
    and "new_Controller c w_tx = (Some vc, w_nc)"
    and "controller_Init c vc (vehicle_parameter conf) (Some mm) w_nc = (OK, w_vc)"
    and "CreateNode c ''chassis_detail'' w_vc = (pn, w_nd)"
  shows
    "\<not> returns_false (Init c conf s)
   \<and> (\<forall>n pw w_wr px w_ws.
        pn = Some n
        \<and> CreateWriter c n (FLAGS_chassis_detail_topic c) w_nd = (pw, w_wr)
        \<and> CreateWriter c n (FLAGS_chassis_detail_sender_topic c) w_wr = (px, w_ws) \<longrightarrow>
        returned (Init c conf s) True s w_ws
          [C_RegisterCanClients, C_CreateCANClient, C_new_MessageManager, C_receiver_Init,
           C_sender_Init, C_new_Controller, C_controller_Init, C_CreateNode ''chassis_detail'',
           C_CreateWriter (FLAGS_chassis_detail_topic c),
           C_CreateWriter (FLAGS_chassis_detail_sender_topic c)])"
  using assms by (auto simp add: Init_simps returns_false_def split: option.splits prod.splits)

text \<open>
  C10, as the claim states it, fails: \<^verbatim>\<open>Init\<close> does not always return \<^verbatim>\<open>true\<close> after
  the six steps. On the stub whose \<^verbatim>\<open>CreateNode\<close> hands back a null node the six steps
  succeed, and \<^verbatim>\<open>Init\<close> then dereferences the node unchecked in
  \<^verbatim>\<open>node_->CreateWriter\<close>.
\<close>

theorem Init_null_node_counterexample:
  "CreateCANClient (stub [7]) (can_card_parameter conf0) world0 = (Some 1, world0)
   \<and> new_MessageManager (stub [7]) world0 = (Some 2, world0)
   \<and> receiver_Init (stub [7]) (Some 1) (Some 2) (enable_receiver_log conf0) world0 = (OK, world0)
   \<and> sender_Init (stub [7]) (Some 1) (Some 2) (enable_sender_log conf0) world0 = (OK, world0)
   \<and> new_Controller (stub [7]) world0 = (Some 3, world0)
   \<and> controller_Init (stub [7]) 3 (vehicle_parameter conf0) (Some 2) world0 = (OK, world0)
   \<and> Init (stub [7]) conf0 (factory0 world0) = Inl NullPointerDereference"
  by (simp add: Init_simps stub_simps)

text \<open>The stub with no step made to fail.\<close>

theorem Init_succeeds_after_six_steps_witness:
  "\<not> returns_false (Init (stub []) conf0 (factory0 world0))
   \<and> returned (Init (stub []) conf0 (factory0 world0)) True (factory0 world0)
       (world0\<lparr>registered := [''chassis_detail'', ''chassis_detail_sender'']\<rparr>)
       [C_RegisterCanClients, C_CreateCANClient, C_new_MessageManager, C_receiver_Init,
        C_sender_Init, C_new_Controller, C_controller_Init, C_CreateNode ''chassis_detail'',
        C_CreateWriter ''chassis_detail'', C_CreateWriter ''chassis_detail_sender'']"
  using Init_succeeds_after_six_steps [where c = "stub []" and conf = conf0
      and s = "factory0 world0" and cl = 1 and mm = 2 and vc = 3 and pn = "Some 4"
      and w_cl = world0 and w_mm = world0 and w_rx = world0 and w_tx = world0 and w_nc = world0
      and w_vc = world0 and w_nd = world0]
  by (simp add: stub_simps sm_CreateWriter_def)

text \<open>
  For any collaborators: after an \<^verbatim>\<open>Init\<close> that returned \<^verbatim>\<open>true\<close> the client, the
  controller and the node are set, \<^verbatim>\<open>chassis_detail_writer_\<close> is the writer created for
  \<^verbatim>\<open>FLAGS_chassis_detail_topic\<close> and \<^verbatim>\<open>chassis_detail_sender_writer_\<close> the writer created
  next, for \<^verbatim>\<open>FLAGS_chassis_detail_sender_topic\<close>.
\<close>

lemma Init_True_wiring:
  assumes ok: "Init c conf s0 = Inr (True, s)"
  shows "\<exists>cl vc n w_nd w_wr.
      can_client s = Some cl \<and> vehicle_controller s = Some vc \<and> node s = Some n
    \<and> CreateWriter c n (FLAGS_chassis_detail_topic c) w_nd = (chassis_detail_writer s, w_wr)
    \<and> CreateWriter c n (FLAGS_chassis_detail_sender_topic c) w_wr
        = (chassis_detail_sender_writer s, world s)"
proof -
  obtain pc w_cl where b1:
    "CreateCANClient c (can_card_parameter conf) (RegisterCanClients c (world s0)) = (pc, w_cl)"
    by fastforce
  obtain pm w_mm where b2: "new_MessageManager c w_cl = (pm, w_mm)"
    by fastforce
  obtain er w_rx where b3: "receiver_Init c pc pm (enable_receiver_log conf) w_mm = (er, w_rx)"
    by fastforce
  obtain es w_tx where b4: "sender_Init c pc pm (enable_sender_log conf) w_rx = (es, w_tx)"
    by fastforce
  obtain pv w_nc where b5: "new_Controller c w_tx = (pv, w_nc)"
    by fastforce
  have c1: "pc \<noteq> None"
  proof
    assume "pc = None"
    with ok b1 show False by (simp add: Init_simps)
  qed
  have c2: "pm \<noteq> None"
  proof
    assume "pm = None"
    with ok b1 b2 c1 show False by (simp add: Init_simps)
  qed
  have c3: "er = OK"
  proof (rule ccontr)
    assume "er \<noteq> OK"
    with ok b1 b2 b3 c1 c2 show False by (simp add: Init_simps)
  qed
  have c4: "es = OK"
  proof (rule ccontr)
    assume "es \<noteq> OK"
    with ok b1 b2 b3 b4 c1 c2 c3 show False by (simp add: Init_simps)
  qed
  have c5: "pv \<noteq> None"
  proof
    assume "pv = None"
    with ok b1 b2 b3 b4 b5 c1 c2 c3 c4 show False by (simp add: Init_simps)
  qed
  then obtain vc where v: "pv = Some vc" by blast
  obtain ev w_vc where b6: "controller_Init c vc (vehicle_parameter conf) pm w_nc = (ev, w_vc)"
    by fastforce
  have c6: "ev = OK"
  proof (rule ccontr)
    assume "ev \<noteq> OK"
    with ok b1 b2 b3 b4 b5 b6 c1 c2 c3 c4 v show False by (simp add: Init_simps)
  qed
  obtain pn w_nd where b7: "CreateNode c ''chassis_detail'' w_vc = (pn, w_nd)"
    by fastforce
  have c7: "pn \<noteq> None"
  proof
    assume "pn = None"
    with ok b1 b2 b3 b4 b5 b6 b7 c1 c2 c3 c4 c6 v show False by (simp add: Init_simps)
  qed
  then obtain n where nd: "pn = Some n" by blast
  obtain pw w_wr where b8: "CreateWriter c n (FLAGS_chassis_detail_topic c) w_nd = (pw, w_wr)"
    by fastforce
  obtain px w_ws where b9: "CreateWriter c n (FLAGS_chassis_detail_sender_topic c) w_wr = (px, w_ws)"
    by fastforce
  from ok b1 b2 b3 b4 b5 b6 b7 b8 b9 c1 c2 c3 c4 c6 v nd
  have "can_client s = pc \<and> vehicle_controller s = Some vc \<and> node s = Some n
    \<and> chassis_detail_writer s = pw \<and> chassis_detail_sender_writer s = px \<and> world s = w_ws"
    by (auto simp add: Init_simps)
  with b8 b9 c1 show ?thesis by auto
qed

text \<open>On the stub with no step made to fail, \<^verbatim>\<open>Init\<close> leaves the factory \<open>wired0\<close>.\<close>

lemma Init_stub_wired0:
  "Init (stub []) conf0 (factory0 world0) =
     Inr (True, wired0\<lparr>
       calls := [C_RegisterCanClients, C_CreateCANClient, C_new_MessageManager, C_receiver_Init,
                 C_sender_Init, C_new_Controller, C_controller_Init, C_CreateNode ''chassis_detail'',
                 C_CreateWriter ''chassis_detail'', C_CreateWriter ''chassis_detail_sender''],
       logs := [(INFO, ''Can client is successfully created.''),
                (INFO, ''Message manager is successfully created.''),
                (INFO, ''The can receiver is successfully initialized.''),
                (INFO, ''The can sender is successfully initialized.''),
                (INFO, ''The vehicle controller is successfully created.''),
                (INFO, ''The vehicle controller is successfully initialized with canbus conf as : ''
                       @ ''vehicle_parameter'')]\<rparr>)"
  by (simp add: Init_simps stub_simps sm_CreateWriter_def)

text \<open>
  C5, as the code has it. \<^verbatim>\<open>Init\<close> does not fail atomically: it has no teardown. When
  the client was created and a later step fails, \<^verbatim>\<open>Init\<close> returns \<^verbatim>\<open>false\<close> and the
  factory keeps what the steps before the failure assigned (the client; the message
  manager once created; the controller once created), the collaborators stay as the
  failing step left them, and the calls made are the steps up to the failure and nothing
  else: no stop and no start.
\<close>

theorem Init_failure_keeps_partial_wiring:
  assumes "CreateCANClient c (can_card_parameter conf) (RegisterCanClients c (world s)) = (Some cl, w_cl)"
    and "new_MessageManager c w_cl = (pm, w_mm)"
    and "receiver_Init c (Some cl) pm (enable_receiver_log conf) w_mm = (er, w_rx)"
    and "sender_Init c (Some cl) pm (enable_sender_log conf) w_rx = (es, w_tx)"
    and "new_Controller c w_tx = (pv, w_nc)"
  shows
    "(pm = None \<longrightarrow>
        kept (Init c conf s) (Some cl) None (vehicle_controller s)
        \<and> returned (Init c conf s) False s w_mm
            [C_RegisterCanClients, C_CreateCANClient, C_new_MessageManager])
   \<and> (pm \<noteq> None \<and> er \<noteq> OK \<longrightarrow>
        kept (Init c conf s) (Some cl) pm (vehicle_controller s)
        \<and> returned (Init c conf s) False s w_rx
            [C_RegisterCanClients, C_CreateCANClient, C_new_MessageManager, C_receiver_Init])
   \<and> (pm \<noteq> None \<and> er = OK \<and> es \<noteq> OK \<longrightarrow>
        kept (Init c conf s) (Some cl) pm (vehicle_controller s)
        \<and> returned (Init c conf s) False s w_tx
            [C_RegisterCanClients, C_CreateCANClient, C_new_MessageManager, C_receiver_Init,
             C_sender_Init])
   \<and> (pm \<noteq> None \<and> er = OK \<and> es = OK \<and> pv = None \<longrightarrow>
        kept (Init c conf s) (Some cl) pm None
        \<and> returned (Init c conf s) False s w_nc
            [C_RegisterCanClients, C_CreateCANClient, C_new_MessageManager, C_receiver_Init,
             C_sender_Init, C_new_Controller])
   \<and> (pm \<noteq> None \<and> er = OK \<and> es = OK \<and> pv = Some vc
        \<and> controller_Init c vc (vehicle_parameter conf) pm w_nc = (ev, w_vc) \<and> ev \<noteq> OK \<longrightarrow>
        kept (Init c conf s) (Some cl) pm (Some vc)
        \<and> returned (Init c conf s) False s w_vc
            [C_RegisterCanClients, C_CreateCANClient, C_new_MessageManager, C_receiver_Init,
             C_sender_Init, C_new_Controller, C_controller_Init])"
  using assms by (auto simp add: Init_simps kept_def)

text \<open>
  C5, as the claim states it, fails: on a fresh factory whose receiver cannot be
  initialised, \<^verbatim>\<open>Init\<close> returns \<^verbatim>\<open>false\<close> and leaves the client and the message manager
  assigned.
\<close>

theorem Init_not_atomic_counterexample:
  "\<not> Init_atomic (stub [3]) conf0 (factory0 world0)"
  by (simp add: Init_atomic_def Init_simps stub_simps)

theorem Init_failure_keeps_partial_wiring_witness:
  "kept (Init (stub [3]) conf0 (factory0 world0)) (Some 1) (Some 2) None
   \<and> returned (Init (stub [3]) conf0 (factory0 world0)) False (factory0 world0) world0
       [C_RegisterCanClients, C_CreateCANClient, C_new_MessageManager, C_receiver_Init]"
  using Init_failure_keeps_partial_wiring [where c = "stub [3]" and conf = conf0
      and s = "factory0 world0" and cl = 1 and pm = "Some 2" and er = "NotOK 2000" and es = OK
      and pv = "Some 3" and w_cl = world0 and w_mm = world0 and w_rx = world0 and w_tx = world0
      and w_nc = world0 and vc = 3 and ev = OK and w_vc = world0]
  by (simp add: stub_simps)

subsection \<open>Start and Stop\<close>

text \<open>
  C2. With the client and the controller in place, name the results of the four starts
  in the order of the source, each in the world that the starts before it left.
  \<^verbatim>\<open>Start\<close> calls the client, the receiver, the sender and the controller in this order;
  the first start that fails makes it return \<^verbatim>\<open>false\<close> with no later start called, no
  stop called, and the collaborators as the starts that ran left them; when all four
  succeed it returns \<^verbatim>\<open>true\<close>.
\<close>

theorem Start_order_and_first_failure:
  assumes "can_client s = Some cl"
    and "vehicle_controller s = Some vc"
    and "client_Start c cl (world s) = (e_cl, w_cl)"
    and "receiver_Start c w_cl = (e_rx, w_rx)"
    and "sender_Start c w_rx = (e_tx, w_tx)"
    and "controller_Start c vc w_tx = (b_vc, w_vc)"
  shows
    "(e_cl \<noteq> OK \<longrightarrow> returned (Start c s) False s w_cl [C_client_Start])
   \<and> (e_cl = OK \<and> e_rx \<noteq> OK \<longrightarrow>
        returned (Start c s) False s w_rx [C_client_Start, C_receiver_Start])
   \<and> (e_cl = OK \<and> e_rx = OK \<and> e_tx \<noteq> OK \<longrightarrow>
        returned (Start c s) False s w_tx [C_client_Start, C_receiver_Start, C_sender_Start])
   \<and> (e_cl = OK \<and> e_rx = OK \<and> e_tx = OK \<and> \<not> b_vc \<longrightarrow>
        returned (Start c s) False s w_vc
          [C_client_Start, C_receiver_Start, C_sender_Start, C_controller_Start])
   \<and> (e_cl = OK \<and> e_rx = OK \<and> e_tx = OK \<and> b_vc \<longrightarrow>
        returned (Start c s) True s w_vc
          [C_client_Start, C_receiver_Start, C_sender_Start, C_controller_Start])"
  using assms by (auto simp add: Start_simps)

text \<open>The five cases on the stub; \<open>started\<close> shows the stages that are left running.\<close>

theorem Start_order_and_first_failure_witness:
  "returned (Start (stub [11]) wired0) False wired0 (world wired0) [C_client_Start]
   \<and> returned (Start (stub [12]) wired0) False wired0
       ((world wired0)\<lparr>started := [''client'']\<rparr>) [C_client_Start, C_receiver_Start]
   \<and> returned (Start (stub [13]) wired0) False wired0
       ((world wired0)\<lparr>started := [''client'', ''receiver'']\<rparr>)
       [C_client_Start, C_receiver_Start, C_sender_Start]
   \<and> returned (Start (stub [14]) wired0) False wired0
       ((world wired0)\<lparr>started := [''client'', ''receiver'', ''sender'']\<rparr>)
       [C_client_Start, C_receiver_Start, C_sender_Start, C_controller_Start]
   \<and> returned (Start (stub []) wired0) True wired0
       ((world wired0)\<lparr>started := [''client'', ''receiver'', ''sender'', ''controller'']\<rparr>)
       [C_client_Start, C_receiver_Start, C_sender_Start, C_controller_Start]"
proof -
  note th = Start_order_and_first_failure [where s = wired0 and cl = 1 and vc = 3]
  have f1: "returned (Start (stub [11]) wired0) False wired0 (world wired0) [C_client_Start]"
    using th [where c = "stub [11]" and e_cl = "NotOK 2100" and w_cl = "world wired0"
        and e_rx = OK and w_rx = "(world wired0)\<lparr>started := [''receiver'']\<rparr>"
        and e_tx = OK and w_tx = "(world wired0)\<lparr>started := [''receiver'', ''sender'']\<rparr>"
        and b_vc = True
        and w_vc = "(world wired0)\<lparr>started := [''receiver'', ''sender'', ''controller'']\<rparr>"]
    by (simp add: stub_simps)
  have f2: "returned (Start (stub [12]) wired0) False wired0
       ((world wired0)\<lparr>started := [''client'']\<rparr>) [C_client_Start, C_receiver_Start]"
    using th [where c = "stub [12]" and e_cl = OK
        and w_cl = "(world wired0)\<lparr>started := [''client'']\<rparr>"
        and e_rx = "NotOK 2000" and w_rx = "(world wired0)\<lparr>started := [''client'']\<rparr>"
        and e_tx = OK and w_tx = "(world wired0)\<lparr>started := [''client'', ''sender'']\<rparr>"
        and b_vc = True
        and w_vc = "(world wired0)\<lparr>started := [''client'', ''sender'', ''controller'']\<rparr>"]
    by (simp add: stub_simps)
  have f3: "returned (Start (stub [13]) wired0) False wired0
       ((world wired0)\<lparr>started := [''client'', ''receiver'']\<rparr>)
       [C_client_Start, C_receiver_Start, C_sender_Start]"
    using th [where c = "stub [13]" and e_cl = OK
        and w_cl = "(world wired0)\<lparr>started := [''client'']\<rparr>"
        and e_rx = OK and w_rx = "(world wired0)\<lparr>started := [''client'', ''receiver'']\<rparr>"
        and e_tx = "NotOK 2000"
        and w_tx = "(world wired0)\<lparr>started := [''client'', ''receiver'']\<rparr>"
        and b_vc = True
        and w_vc = "(world wired0)\<lparr>started := [''client'', ''receiver'', ''controller'']\<rparr>"]
    by (simp add: stub_simps)
  have f4: "returned (Start (stub [14]) wired0) False wired0
       ((world wired0)\<lparr>started := [''client'', ''receiver'', ''sender'']\<rparr>)
       [C_client_Start, C_receiver_Start, C_sender_Start, C_controller_Start]"
    using th [where c = "stub [14]" and e_cl = OK
        and w_cl = "(world wired0)\<lparr>started := [''client'']\<rparr>"
        and e_rx = OK and w_rx = "(world wired0)\<lparr>started := [''client'', ''receiver'']\<rparr>"
        and e_tx = OK
        and w_tx = "(world wired0)\<lparr>started := [''client'', ''receiver'', ''sender'']\<rparr>"
        and b_vc = False
        and w_vc = "(world wired0)\<lparr>started := [''client'', ''receiver'', ''sender'']\<rparr>"]
    by (simp add: stub_simps)
  have f5: "returned (Start (stub []) wired0) True wired0
       ((world wired0)\<lparr>started := [''client'', ''receiver'', ''sender'', ''controller'']\<rparr>)
       [C_client_Start, C_receiver_Start, C_sender_Start, C_controller_Start]"
    using th [where c = "stub []" and e_cl = OK
        and w_cl = "(world wired0)\<lparr>started := [''client'']\<rparr>"
        and e_rx = OK and w_rx = "(world wired0)\<lparr>started := [''client'', ''receiver'']\<rparr>"
        and e_tx = OK
        and w_tx = "(world wired0)\<lparr>started := [''client'', ''receiver'', ''sender'']\<rparr>"
        and b_vc = True
        and w_vc = "(world wired0)\<lparr>started := [''client'', ''receiver'', ''sender'', ''controller'']\<rparr>"]
    by (simp add: stub_simps)
  from f1 f2 f3 f4 f5 show ?thesis by blast
qed

text \<open>
  C6, as the code has it. \<^verbatim>\<open>Start\<close> has no null check. With a null client it
  dereferences the null pointer in its first statement, whatever the collaborators do:
  it does not return \<^verbatim>\<open>false\<close>. With a client and a null controller it returns
  \<^verbatim>\<open>false\<close> when one of the first three starts fails and dereferences the null
  controller when they all succeed.
\<close>

theorem Start_on_null_components:
  "(can_client s = None \<longrightarrow> Start c s = Inl NullPointerDereference)
   \<and> (can_client s = Some cl \<and> vehicle_controller s = None
        \<and> client_Start c cl (world s) = (e_cl, w_cl)
        \<and> receiver_Start c w_cl = (e_rx, w_rx)
        \<and> sender_Start c w_rx = (e_tx, w_tx) \<longrightarrow>
        (if e_cl = OK \<and> e_rx = OK \<and> e_tx = OK
         then Start c s = Inl NullPointerDereference
         else returns_false (Start c s)))"
  by (auto simp add: Start_simps returns_false_def)

text \<open>
  C6, as the claim states it, fails: on a fresh factory, before any \<^verbatim>\<open>Init\<close>, \<^verbatim>\<open>Start\<close>
  does not return \<^verbatim>\<open>false\<close>.
\<close>

theorem Start_null_counterexample:
  "Start (stub []) (factory0 world0) = Inl NullPointerDereference
   \<and> \<not> returns_false (Start (stub []) (factory0 world0))"
  by (simp add: Start_simps returns_false_def stub_simps)

theorem Start_on_null_components_witness:
  "Start (stub []) (factory0 world0) = Inl NullPointerDereference
   \<and> Start (stub []) ((factory0 world0)\<lparr>can_client := Some 1\<rparr>) = Inl NullPointerDereference
   \<and> returns_false (Start (stub [12]) ((factory0 world0)\<lparr>can_client := Some 1\<rparr>))"
proof -
  have a: "Start (stub []) (factory0 world0) = Inl NullPointerDereference"
    using Start_on_null_components [where c = "stub []" and s = "factory0 world0"]
    by (simp add: stub_simps)
  have b: "Start (stub []) ((factory0 world0)\<lparr>can_client := Some 1\<rparr>) = Inl NullPointerDereference"
    using Start_on_null_components [where c = "stub []"
        and s = "(factory0 world0)\<lparr>can_client := Some 1\<rparr>" and cl = 1
        and e_cl = OK and w_cl = "world0\<lparr>started := [''client'']\<rparr>"
        and e_rx = OK and w_rx = "world0\<lparr>started := [''client'', ''receiver'']\<rparr>"
        and e_tx = OK and w_tx = "world0\<lparr>started := [''client'', ''receiver'', ''sender'']\<rparr>"]
    by (simp add: stub_simps)
  have c: "returns_false (Start (stub [12]) ((factory0 world0)\<lparr>can_client := Some 1\<rparr>))"
    using Start_on_null_components [where c = "stub [12]"
        and s = "(factory0 world0)\<lparr>can_client := Some 1\<rparr>" and cl = 1
        and e_cl = OK and w_cl = "world0\<lparr>started := [''client'']\<rparr>"
        and e_rx = "NotOK 2000" and w_rx = "world0\<lparr>started := [''client'']\<rparr>"
        and e_tx = OK and w_tx = "world0\<lparr>started := [''client'', ''sender'']\<rparr>"]
    by (simp add: stub_simps)
  from a b c show ?thesis by blast
qed

text \<open>
  \<^verbatim>\<open>Stop\<close> with both pointers set, and with one of them null.
\<close>

lemma Stop_wired:
  assumes "can_client s = Some cl"
    and "vehicle_controller s = Some vc"
  shows
    "(\<exists>s1 s2.
        Stop c s = Inr s1
        \<and> calls s1 = calls s @ [C_sender_Stop, C_receiver_Stop, C_client_Stop, C_controller_Stop]
        \<and> world s1 = controller_Stop c vc (client_Stop c cl (receiver_Stop c (sender_Stop c (world s))))
        \<and> Stop c s1 = Inr s2
        \<and> calls s2 = calls s1 @ [C_sender_Stop, C_receiver_Stop, C_client_Stop, C_controller_Stop])
   \<and> (\<exists>b s1 s2.
        Start c s = Inr (b, s1)
        \<and> Stop c s1 = Inr s2
        \<and> calls s2 = calls s1 @ [C_sender_Stop, C_receiver_Stop, C_client_Stop, C_controller_Stop])"
  using assms
  by (auto simp add: Stop_def Start_def Let_def ext_def ext_void_def AERROR_def AINFO_def
      split: prod.splits)

lemma Stop_null_client: "can_client s = None \<Longrightarrow> Stop c s = Inl NullPointerDereference"
  by (simp add: Stop_simps)

lemma Stop_null_controller: "vehicle_controller s = None \<Longrightarrow> Stop c s = Inl NullPointerDereference"
  by (simp add: Stop_simps split: option.splits)

text \<open>
  C4, as the code has it. With the client and the controller set (as after an \<^verbatim>\<open>Init\<close>
  that returned \<^verbatim>\<open>true\<close>), \<^verbatim>\<open>Stop\<close> stops the sender, the receiver, the client and the
  controller, in this order and whatever they do, and returns; it has no result through
  which a failure could reach the caller. A second \<^verbatim>\<open>Stop\<close> right after does the same
  and returns too, and so does a \<^verbatim>\<open>Stop\<close> after a \<^verbatim>\<open>Start\<close>, whatever \<^verbatim>\<open>Start\<close>
  returned. \<^verbatim>\<open>Stop\<close> has no null check: with a null client or a null controller it
  dereferences the null pointer and does not return.
\<close>

theorem Stop_order_and_null:
  "(can_client s = Some cl \<and> vehicle_controller s = Some vc \<longrightarrow>
      (\<exists>s1 s2.
          Stop c s = Inr s1
          \<and> calls s1 = calls s @ [C_sender_Stop, C_receiver_Stop, C_client_Stop, C_controller_Stop]
          \<and> world s1 = controller_Stop c vc (client_Stop c cl (receiver_Stop c (sender_Stop c (world s))))
          \<and> Stop c s1 = Inr s2
          \<and> calls s2 = calls s1 @ [C_sender_Stop, C_receiver_Stop, C_client_Stop, C_controller_Stop])
      \<and> (\<exists>b s1 s2.
          Start c s = Inr (b, s1)
          \<and> Stop c s1 = Inr s2
          \<and> calls s2 = calls s1 @ [C_sender_Stop, C_receiver_Stop, C_client_Stop, C_controller_Stop]))
   \<and> (can_client s = None \<or> vehicle_controller s = None \<longrightarrow>
        Stop c s = Inl NullPointerDereference)"
proof (intro conjI impI)
  assume "can_client s = None \<or> vehicle_controller s = None"
  then show "Stop c s = Inl NullPointerDereference"
    using Stop_null_client Stop_null_controller by blast
next
  assume w: "can_client s = Some cl \<and> vehicle_controller s = Some vc"
  from w Stop_wired [of s cl vc c]
  show "\<exists>s1 s2.
          Stop c s = Inr s1
          \<and> calls s1 = calls s @ [C_sender_Stop, C_receiver_Stop, C_client_Stop, C_controller_Stop]
          \<and> world s1 = controller_Stop c vc (client_Stop c cl (receiver_Stop c (sender_Stop c (world s))))
          \<and> Stop c s1 = Inr s2
          \<and> calls s2 = calls s1 @ [C_sender_Stop, C_receiver_Stop, C_client_Stop, C_controller_Stop]"
    by blast
  from w Stop_wired [of s cl vc c]
  show "\<exists>b s1 s2.
          Start c s = Inr (b, s1)
          \<and> Stop c s1 = Inr s2
          \<and> calls s2 = calls s1 @ [C_sender_Stop, C_receiver_Stop, C_client_Stop, C_controller_Stop]"
    by blast
qed

text \<open>
  C4, as the claim states it, fails: \<^verbatim>\<open>Stop\<close> is not unconditional. On a fresh factory,
  where \<^verbatim>\<open>Start\<close> never ran, \<^verbatim>\<open>Stop\<close> dereferences the null client; after an \<^verbatim>\<open>Init\<close>
  that failed at the receiver it dereferences the null controller.
\<close>

theorem Stop_null_counterexample:
  "Stop (stub []) (factory0 world0) = Inl NullPointerDereference
   \<and> (case Init (stub [3]) conf0 (factory0 world0) of
         Inl f \<Rightarrow> False
       | Inr (b, s') \<Rightarrow> \<not> b \<and> Stop (stub [3]) s' = Inl NullPointerDereference)"
  by (simp add: Stop_simps Init_simps stub_simps)

text \<open>
  On the stub: two stops in a row, a stop after a start that failed at the sender, and
  a stop on a fresh factory.
\<close>

theorem Stop_order_and_null_witness:
  "(\<exists>s1 s2.
        Stop (stub [13]) wired0 = Inr s1
        \<and> calls s1 = [C_sender_Stop, C_receiver_Stop, C_client_Stop, C_controller_Stop]
        \<and> world s1 = world wired0
        \<and> Stop (stub [13]) s1 = Inr s2
        \<and> calls s2 = [C_sender_Stop, C_receiver_Stop, C_client_Stop, C_controller_Stop,
                       C_sender_Stop, C_receiver_Stop, C_client_Stop, C_controller_Stop])
   \<and> (\<exists>s1 s2.
        Start (stub [13]) wired0 = Inr (False, s1)
        \<and> started (world s1) = [''client'', ''receiver'']
        \<and> Stop (stub [13]) s1 = Inr s2
        \<and> started (world s2) = []
        \<and> calls s2 = [C_client_Start, C_receiver_Start, C_sender_Start,
                       C_sender_Stop, C_receiver_Stop, C_client_Stop, C_controller_Stop])
   \<and> Stop (stub [13]) (factory0 world0) = Inl NullPointerDereference"
proof -
  have a: "(\<exists>s1 s2.
        Stop (stub [13]) wired0 = Inr s1
        \<and> calls s1 = [C_sender_Stop, C_receiver_Stop, C_client_Stop, C_controller_Stop]
        \<and> world s1 = world wired0
        \<and> Stop (stub [13]) s1 = Inr s2
        \<and> calls s2 = [C_sender_Stop, C_receiver_Stop, C_client_Stop, C_controller_Stop,
                       C_sender_Stop, C_receiver_Stop, C_client_Stop, C_controller_Stop])
   \<and> (\<exists>s1 s2.
        Start (stub [13]) wired0 = Inr (False, s1)
        \<and> started (world s1) = [''client'', ''receiver'']
        \<and> Stop (stub [13]) s1 = Inr s2
        \<and> started (world s2) = []
        \<and> calls s2 = [C_client_Start, C_receiver_Start, C_sender_Start,
                       C_sender_Stop, C_receiver_Stop, C_client_Stop, C_controller_Stop])"
    using Stop_order_and_null [where c = "stub [13]" and s = wired0 and cl = 1 and vc = 3]
    by (simp add: stub_simps Stop_simps Start_def)
  have b: "Stop (stub [13]) (factory0 world0) = Inl NullPointerDereference"
    using Stop_order_and_null [where c = "stub [13]" and s = "factory0 world0"]
    by (simp add: stub_simps)
  from a b show ?thesis by blast
qed

subsection \<open>UpdateCommand\<close>

text \<open>
  C3. For the control command and for the chassis command alike: when the controller's
  \<^verbatim>\<open>Update\<close> returns a code other than \<open>OK\<close>, \<^verbatim>\<open>UpdateCommand\<close> returns after that one
  call, the sender's \<^verbatim>\<open>Update\<close> is not called and the collaborators are as the
  controller left them; when it returns \<open>OK\<close>, the sender's \<^verbatim>\<open>Update\<close> is called exactly
  once, after the controller's.
\<close>

theorem UpdateCommand_flushes_iff_Update_OK:
  assumes "vehicle_controller s = Some vc"
    and "controller_Update_control c vc control_command (world s) = (e_ctl, w_ctl)"
    and "controller_Update_chassis c vc chassis_command (world s) = (e_chs, w_chs)"
  shows
    "(e_ctl \<noteq> OK \<longrightarrow>
        finished (UpdateCommand_control c (Some control_command) s) s w_ctl
          [C_controller_Update_control])
   \<and> (e_ctl = OK \<longrightarrow>
        finished (UpdateCommand_control c (Some control_command) s) s (sender_Update c w_ctl)
          [C_controller_Update_control, C_sender_Update])
   \<and> (e_chs \<noteq> OK \<longrightarrow>
        finished (UpdateCommand_chassis c (Some chassis_command) s) s w_chs
          [C_controller_Update_chassis])
   \<and> (e_chs = OK \<longrightarrow>
        finished (UpdateCommand_chassis c (Some chassis_command) s) s (sender_Update c w_chs)
          [C_controller_Update_chassis, C_sender_Update])"
  using assms by (auto simp add: Update_simps)

text \<open>On the stub, with either update made to fail.\<close>

theorem UpdateCommand_flushes_iff_Update_OK_witness:
  "finished (UpdateCommand_control (stub [21]) (Some 5) wired0) wired0 (world wired0)
     [C_controller_Update_control]
   \<and> finished (UpdateCommand_chassis (stub [21]) (Some 6) wired0) wired0
       ((world wired0)\<lparr>sender_detail := 6\<rparr>) [C_controller_Update_chassis, C_sender_Update]
   \<and> finished (UpdateCommand_control (stub [22]) (Some 5) wired0) wired0
       ((world wired0)\<lparr>sender_detail := 5\<rparr>) [C_controller_Update_control, C_sender_Update]
   \<and> finished (UpdateCommand_chassis (stub [22]) (Some 6) wired0) wired0 (world wired0)
       [C_controller_Update_chassis]"
proof -
  note th = UpdateCommand_flushes_iff_Update_OK [where s = wired0 and vc = 3
      and control_command = 5 and chassis_command = 6]
  have f1: "finished (UpdateCommand_control (stub [21]) (Some 5) wired0) wired0 (world wired0)
       [C_controller_Update_control]
     \<and> finished (UpdateCommand_chassis (stub [21]) (Some 6) wired0) wired0
       ((world wired0)\<lparr>sender_detail := 6\<rparr>) [C_controller_Update_chassis, C_sender_Update]"
    using th [where c = "stub [21]" and e_ctl = "NotOK 2000" and w_ctl = "world wired0"
        and e_chs = OK and w_chs = "(world wired0)\<lparr>sender_detail := 6\<rparr>"]
    by (simp add: stub_simps)
  have f2: "finished (UpdateCommand_control (stub [22]) (Some 5) wired0) wired0
       ((world wired0)\<lparr>sender_detail := 5\<rparr>) [C_controller_Update_control, C_sender_Update]
     \<and> finished (UpdateCommand_chassis (stub [22]) (Some 6) wired0) wired0 (world wired0)
       [C_controller_Update_chassis]"
    using th [where c = "stub [22]" and e_ctl = OK
        and w_ctl = "(world wired0)\<lparr>sender_detail := 5\<rparr>"
        and e_chs = "NotOK 2000" and w_chs = "world wired0"]
    by (simp add: stub_simps)
  from f1 f2 show ?thesis by blast
qed

subsection \<open>The send protocol set\<close>




subsection \<open>The communication fault check\<close>

text \<open>
  For any controller, \<^verbatim>\<open>CheckChassisCommunicationFault\<close> returns what the controller's
  check returns and changes nothing of its own: the collaborators change as that one
  call changes them.
\<close>

lemma CheckChassisCommunicationFault_delegates:
  assumes "vehicle_controller s = Some vc"
  shows "CheckChassisCommunicationFault c s =
    Inr (fst (CheckChassisCommunicationError c vc (world s)),
         s\<lparr>world := snd (CheckChassisCommunicationError c vc (world s)),
            calls := calls s @ [C_CheckChassisCommunicationError]\<rparr>)"
  using assms
  by (simp add: CheckChassisCommunicationFault_def Let_def ext_def split: prod.splits)

text \<open>
  C8, against the controller modelled from the spec. \<^verbatim>\<open>CheckChassisCommunicationFault\<close>
  returns \<^verbatim>\<open>true\<close> exactly when the controller has detected the loss of expected
  periodic frames, and the factory and the collaborators are afterwards as they were
  before; only the instrumentation has recorded the call.
\<close>

theorem CheckChassisCommunicationFault_observes:
  assumes "vehicle_controller s = Some vc"
  shows "CheckChassisCommunicationFault (spec_collab c) s =
    Inr (frames_lost (world s), s\<lparr>calls := calls s @ [C_CheckChassisCommunicationError]\<rparr>)"
  using assms
  by (simp add: CheckChassisCommunicationFault_def Let_def ext_def spec_simps)

text \<open>On the stub, without and with frames lost.\<close>

theorem CheckChassisCommunicationFault_observes_witness:
  "CheckChassisCommunicationFault (spec_collab (stub [])) wired0 =
     Inr (False, wired0\<lparr>calls := [C_CheckChassisCommunicationError]\<rparr>)
   \<and> CheckChassisCommunicationFault (spec_collab (stub []))
       (wired0\<lparr>world := (world wired0)\<lparr>frames_lost := True\<rparr>\<rparr>) =
     Inr (True, wired0\<lparr>world := (world wired0)\<lparr>frames_lost := True\<rparr>,
                       calls := [C_CheckChassisCommunicationError]\<rparr>)"
  using CheckChassisCommunicationFault_observes [where c = "stub []" and s = wired0 and vc = 3]
    CheckChassisCommunicationFault_observes [where c = "stub []"
      and s = "wired0\<lparr>world := (world wired0)\<lparr>frames_lost := True\<rparr>\<rparr>" and vc = 3]
  by (simp add: stub_simps)

subsection \<open>Publishing the chassis detail\<close>

text \<open>
  With the messaging fabric modelled from the spec, an \<^verbatim>\<open>Init\<close> that returned \<^verbatim>\<open>true\<close>
  leaves \<^verbatim>\<open>chassis_detail_writer_\<close> registered for \<^verbatim>\<open>FLAGS_chassis_detail_topic\<close> and
  \<^verbatim>\<open>chassis_detail_sender_writer_\<close> for \<^verbatim>\<open>FLAGS_chassis_detail_sender_topic\<close>.
\<close>

lemma Init_registers_writers:
  assumes "Init (spec_collab c) conf s0 = Inr (True, s)"
  shows "\<exists>vc wr ws. vehicle_controller s = Some vc
    \<and> chassis_detail_writer s = Some wr \<and> chassis_detail_sender_writer s = Some ws
    \<and> wr < length (registered (world s)) \<and> ws < length (registered (world s))
    \<and> registered (world s) ! wr = FLAGS_chassis_detail_topic c
    \<and> registered (world s) ! ws = FLAGS_chassis_detail_sender_topic c"
proof -
  from Init_True_wiring [OF assms] obtain vc n w_nd w_wr where
    a: "vehicle_controller s = Some vc"
    and b: "sm_CreateWriter n (FLAGS_chassis_detail_topic c) w_nd = (chassis_detail_writer s, w_wr)"
    and d: "sm_CreateWriter n (FLAGS_chassis_detail_sender_topic c) w_wr
        = (chassis_detail_sender_writer s, world s)"
    by (auto simp add: spec_collab_def)
  from b [symmetric] have b': "chassis_detail_writer s = Some (length (registered w_nd))"
    "registered w_wr = registered w_nd @ [FLAGS_chassis_detail_topic c]"
    by (auto simp add: sm_CreateWriter_def)
  from d [symmetric] have d': "chassis_detail_sender_writer s = Some (length (registered w_wr))"
    "registered (world s) = registered w_wr @ [FLAGS_chassis_detail_sender_topic c]"
    by (auto simp add: sm_CreateWriter_def)
  from a b' d' show ?thesis by (simp add: nth_append)
qed




end
